theory Spec2Isabelle
  imports Complex_Main "HOL-Library.Word"
begin

section \<open>Data model of examples/server/server.cpp\<close>

text \<open>
  \<open>int32_t\<close> and \<open>int\<close> are 32-bit words, compared through \<open>sint\<close> as the signed C++
  comparisons do. The \<open>float\<close> fields are only ever copied from one struct to the other
  (or set to the literal \<open>0.0f\<close>), so they are carried as \<open>real\<close>.
\<close>

type_synonym int32 = "32 word"

text \<open>\<open>struct whisper_params\<close>, lines 35 to 81, field for field.\<close>

record whisper_params =
  n_threads :: int32
  n_processors :: int32
  offset_t_ms :: int32
  offset_n :: int32
  duration_ms :: int32
  max_context :: int32
  max_len :: int32
  best_of :: int32
  beam_size :: int32
  word_thold :: real
  entropy_thold :: real
  logprob_thold :: real
  speed_up :: bool
  translate :: bool
  detect_language :: bool
  diarize :: bool
  tinydiarize :: bool
  split_on_word :: bool
  no_fallback :: bool
  output_txt :: bool
  output_vtt :: bool
  output_srt :: bool
  output_wts :: bool
  output_csv :: bool
  output_jsn :: bool
  output_lrc :: bool
  print_special :: bool
  print_colors :: bool
  print_progress :: bool
  no_timestamps :: bool
  language :: string
  prompt :: string
  font_path :: string
  model :: string
  tdrz_speaker_turn :: string
  openvino_encode_device :: string
  fname_inp :: "string list"
  fname_out :: "string list"

text \<open>
  The member initialisers of \<open>whisper_params\<close>. \<open>n_threads\<close> is
  \<open>std::min(4, (int32_t) std::thread::hardware_concurrency())\<close>; the machine's answer
  is the argument \<open>hc\<close>.
\<close>

definition default_whisper_params :: "int32 \<Rightarrow> whisper_params" where
  "default_whisper_params hc =
     \<lparr> n_threads = (if sint hc < 4 then hc else 4),
       n_processors = 1,
       offset_t_ms = 0,
       offset_n = 0,
       duration_ms = 0,
       max_context = - 1,
       max_len = 0,
       best_of = 2,
       beam_size = - 1,
       word_thold = 0.01,
       entropy_thold = 2.40,
       logprob_thold = - 1.00,
       speed_up = False,
       translate = False,
       detect_language = False,
       diarize = False,
       tinydiarize = False,
       split_on_word = False,
       no_fallback = False,
       output_txt = False,
       output_vtt = False,
       output_srt = False,
       output_wts = False,
       output_csv = False,
       output_jsn = False,
       output_lrc = False,
       print_special = False,
       print_colors = False,
       print_progress = False,
       no_timestamps = False,
       language = ''en'',
       prompt = [],
       font_path = ''/System/Library/Fonts/Supplemental/Courier New Bold.ttf'',
       model = ''models/ggml-base.en.bin'',
       tdrz_speaker_turn = '' [SPEAKER_TURN]'',
       openvino_encode_device = ''CPU'',
       fname_inp = [],
       fname_out = [] \<rparr>"

text \<open>
  \<open>std::string::c_str()\<close> hands a NUL-terminated view to the engine: the characters up to
  the first NUL byte.
\<close>

definition c_str :: "string \<Rightarrow> string" where
  "c_str s = takeWhile (\<lambda>c. c \<noteq> CHR 0x00) s"

subsection \<open>Static storage\<close>

text \<open>
  The translation unit has two \<open>static bool\<close> objects: \<open>server_verbose\<close> (line 137) and
  the function-local \<open>is_aborted\<close> of \<open>ProcessAudio\<close> (line 549). A \<open>void *\<close> handed to
  the engine is the null pointer or the address of one of them; the store gives the
  current value of each object.
\<close>

datatype address = Nullptr | Addr_server_verbose | Addr_is_aborted

type_synonym store = "address \<Rightarrow> bool"

text \<open>Both statics are initialised with \<open>false\<close>.\<close>

definition initial_store :: store where
  "initial_store = (\<lambda>a. False)"

subsection \<open>The engine's parameter block\<close>

datatype whisper_sampling_strategy = WHISPER_SAMPLING_GREEDY | WHISPER_SAMPLING_BEAM_SEARCH

text \<open>
  \<open>struct whisper_full_params\<close> is declared in whisper.h; these are the members that
  \<open>ProcessAudio\<close> assigns (\<open>greedy.best_of\<close> and \<open>beam_search.beam_size\<close> are flattened).
  A callback is a function pointer: \<open>None\<close> is the null pointer. A call of the callback
  yields \<open>None\<close> when it dereferences the null pointer.
\<close>

record whisper_full_params =
  strategy :: whisper_sampling_strategy
  print_realtime :: bool
  print_progress :: bool
  print_timestamps :: bool
  print_special :: bool
  translate :: bool
  language :: string
  detect_language :: bool
  n_threads :: int32
  n_max_text_ctx :: int32
  offset_ms :: int32
  duration_ms :: int32
  token_timestamps :: bool
  thold_pt :: real
  max_len :: int32
  split_on_word :: bool
  speed_up :: bool
  tdrz_enable :: bool
  initial_prompt :: string
  greedy_best_of :: int32
  beam_search_beam_size :: int32
  temperature_inc :: real
  entropy_thold :: real
  logprob_thold :: real
  encoder_begin_callback :: "(store \<Rightarrow> address \<Rightarrow> bool option) option"
  encoder_begin_callback_user_data :: address

subsection \<open>The external collaborators\<close>

text \<open>
  The engine (whisper.h) and the WAV reader (common.h) are not part of server.cpp; they
  are parameters of the model. \<open>'ctx\<close> is the state behind a \<open>whisper_context *\<close> and
  \<open>'s\<close> the type of one PCM sample. \<open>whisper_init_from_file\<close> yields \<open>None\<close> for
  \<open>nullptr\<close>; \<open>read_wav\<close> yields \<open>None\<close> for \<open>false\<close> and the filled vector otherwise;
  \<open>whisper_full_parallel\<close> gets the static store (it may call the callback), the context,
  the parameter block, the samples, their count and the processor count, and returns its
  status with the context it leaves behind.
\<close>

record ('ctx, 's) whisper_api =
  whisper_lang_id :: "string \<Rightarrow> int32"
  whisper_init_from_file :: "string \<Rightarrow> 'ctx option"
  whisper_ctx_init_openvino_encoder :: "'ctx \<Rightarrow> string \<Rightarrow> 'ctx"
  whisper_is_multilingual :: "'ctx \<Rightarrow> bool"
  whisper_full_default_params :: "whisper_sampling_strategy \<Rightarrow> whisper_full_params"
  whisper_full_parallel ::
    "store \<Rightarrow> 'ctx \<Rightarrow> whisper_full_params \<Rightarrow> 's list \<Rightarrow> int32 \<Rightarrow> int32 \<Rightarrow> int32 \<times> 'ctx"
  whisper_full_n_segments :: "'ctx \<Rightarrow> int32"
  whisper_full_get_segment_text :: "'ctx \<Rightarrow> int32 \<Rightarrow> string"
  read_wav :: "string \<Rightarrow> 's list option"

text \<open>
  What a run of the server asks of the engine, in order: loading a model, initialising
  the OpenVINO encoder, and a \<open>whisper_full_parallel\<close> run with its arguments and the
  status it returned. The read-only queries (\<open>whisper_lang_id\<close>, \<open>whisper_is_multilingual\<close>,
  \<open>whisper_full_n_segments\<close>, \<open>whisper_full_get_segment_text\<close>) are not recorded.
\<close>

datatype 's engine_call =
    Call_init_from_file string
  | Call_init_openvino_encoder string
  | Call_full_parallel (call_wparams: whisper_full_params) (call_samples: "'s list")
      (call_n_samples: int32) (call_n_processors: int32) (call_status: int32)

section \<open>Startup: \<open>InitializeWhisper\<close>\<close>

text \<open>
  \<open>InitializeWhisper\<close> (lines 446 to 467) returns \<open>nullptr\<close> on each of three paths,
  told apart by the message written to stderr; the model keeps the message as the error
  value. The second component lists the engine calls made, in order.
\<close>

datatype init_error =
    Unknown_language string
  | Both_diarize_and_tinydiarize
  | Failed_to_initialize_context

fun is_ConfigError :: "init_error \<Rightarrow> bool" where
  "is_ConfigError (Unknown_language l) = True"
| "is_ConfigError Both_diarize_and_tinydiarize = True"
| "is_ConfigError Failed_to_initialize_context = False"

definition InitializeWhisper ::
  "('ctx, 's) whisper_api \<Rightarrow> whisper_params \<Rightarrow> (init_error + 'ctx) \<times> 's engine_call list" where
  "InitializeWhisper api params =
     (if whisper_params.language params \<noteq> ''auto''
         \<and> whisper_lang_id api (c_str (whisper_params.language params)) = - 1
      then (Inl (Unknown_language (whisper_params.language params)), [])
      else if diarize params \<and> tinydiarize params
      then (Inl Both_diarize_and_tinydiarize, [])
      else (case whisper_init_from_file api (c_str (model params)) of
              None \<Rightarrow>
                (Inl Failed_to_initialize_context, [Call_init_from_file (c_str (model params))])
            | Some ctx \<Rightarrow>
                (Inr (whisper_ctx_init_openvino_encoder api ctx
                        (c_str (openvino_encode_device params))),
                 [Call_init_from_file (c_str (model params)),
                  Call_init_openvino_encoder (c_str (openvino_encode_device params))])))"

section \<open>One job: \<open>ProcessAudio\<close>\<close>

text \<open>Lines 490 to 496: a model that is not multilingual ignores language and translation.\<close>

definition ignore_language_options ::
  "('ctx, 's) whisper_api \<Rightarrow> 'ctx \<Rightarrow> whisper_params \<Rightarrow> whisper_params" where
  "ignore_language_options api ctx params =
     (if \<not> whisper_is_multilingual api ctx
      then (if whisper_params.language params \<noteq> ''en'' \<or> whisper_params.translate params
            then params\<lparr> whisper_params.language := ''en'', whisper_params.translate := False \<rparr>
            else params)
      else params)"

text \<open>Lines 497 to 499.\<close>

definition apply_detect_language :: "whisper_params \<Rightarrow> whisper_params" where
  "apply_detect_language params =
     (if whisper_params.detect_language params
      then params\<lparr> whisper_params.language := ''auto'' \<rparr>
      else params)"

text \<open>
  The local copy \<open>params\<close> of \<open>ProcessAudio\<close> as it stands at line 500, after both
  adjustments.
\<close>

definition job_params ::
  "('ctx, 's) whisper_api \<Rightarrow> 'ctx \<Rightarrow> whisper_params \<Rightarrow> whisper_params" where
  "job_params api ctx params = apply_detect_language (ignore_language_options api ctx params)"

text \<open>
  The lambda of lines 551 to 554: it reads the \<open>bool\<close> that \<open>user_data\<close> points to and
  answers its negation.
\<close>

definition encoder_begin_lambda :: "store \<Rightarrow> address \<Rightarrow> bool option" where
  "encoder_begin_lambda st user_data =
     (if user_data = Nullptr then None
      else (let is_aborted = st user_data in Some (\<not> is_aborted)))"

text \<open>Lines 511 to 556: the parameter block built for the engine from the job's \<open>params\<close>.\<close>

definition make_wparams ::
  "('ctx, 's) whisper_api \<Rightarrow> whisper_params \<Rightarrow> whisper_full_params" where
  "make_wparams api params =
     (let wparams = whisper_full_default_params api WHISPER_SAMPLING_GREEDY in
      wparams\<lparr>
        strategy := (if 1 < sint (beam_size params)
                     then WHISPER_SAMPLING_BEAM_SEARCH else WHISPER_SAMPLING_GREEDY),
        print_realtime := False,
        whisper_full_params.print_progress := whisper_params.print_progress params,
        print_timestamps := \<not> no_timestamps params,
        whisper_full_params.print_special := whisper_params.print_special params,
        whisper_full_params.translate := whisper_params.translate params,
        whisper_full_params.language := c_str (whisper_params.language params),
        whisper_full_params.detect_language := whisper_params.detect_language params,
        whisper_full_params.n_threads := whisper_params.n_threads params,
        n_max_text_ctx := (if 0 \<le> sint (max_context params)
                           then max_context params else n_max_text_ctx wparams),
        offset_ms := offset_t_ms params,
        whisper_full_params.duration_ms := whisper_params.duration_ms params,
        token_timestamps := (output_wts params \<or> 0 < sint (whisper_params.max_len params)),
        thold_pt := word_thold params,
        whisper_full_params.max_len :=
          (if output_wts params \<and> whisper_params.max_len params = 0
           then 60 else whisper_params.max_len params),
        whisper_full_params.split_on_word := whisper_params.split_on_word params,
        whisper_full_params.speed_up := whisper_params.speed_up params,
        tdrz_enable := tinydiarize params,
        initial_prompt := c_str (prompt params),
        greedy_best_of := best_of params,
        beam_search_beam_size := beam_size params,
        temperature_inc := (if no_fallback params then 0 else temperature_inc wparams),
        whisper_full_params.entropy_thold := whisper_params.entropy_thold params,
        whisper_full_params.logprob_thold := whisper_params.logprob_thold params,
        encoder_begin_callback := Some encoder_begin_lambda,
        encoder_begin_callback_user_data := Addr_is_aborted \<rparr>)"

text \<open>
  Lines 563 to 567: \<open>for (int i = 0; i < n_segments; ++i) output += text(ctx, i)\<close>, started
  with \<open>i = 0\<close> and the empty \<open>output\<close>.
\<close>

function collect_segments ::
  "('ctx, 's) whisper_api \<Rightarrow> 'ctx \<Rightarrow> int32 \<Rightarrow> int32 \<Rightarrow> string \<Rightarrow> string" where
  "collect_segments api ctx i n_segments output =
     (if sint i < sint n_segments
      then collect_segments api ctx (i + 1) n_segments
             (output @ whisper_full_get_segment_text api ctx i)
      else output)"
  by pat_completeness auto
termination
proof (relation "measure (\<lambda>(api, ctx, i, n, output). nat (sint n - sint i))")
  show "wf (measure (\<lambda>(api :: ('ctx, 's) whisper_api, ctx :: 'ctx, i :: int32, n :: int32,
                        output :: string). nat (sint n - sint i)))"
    by simp
next
  fix api :: "('ctx, 's) whisper_api" and ctx :: 'ctx and i n :: int32 and out :: string
  assume less: "sint i < sint n"
  have "sint n < 2 ^ 31"
    using sint_lt [of n] by simp
  moreover have "- (2 ^ 31) \<le> sint i"
    using sint_ge [of i] by simp
  ultimately have "- (2 ^ 31) \<le> sint i + 1" and "sint i + 1 < 2 ^ 31"
    using less by linarith+
  then have "signed_take_bit 31 (sint i + 1) = sint i + 1"
    by (rule signed_take_bit_int_eq_self)
  then have "sint (i + 1) = sint i + 1"
    by (simp add: sint_word_ariths)
  with less show "((api, ctx, i + 1, n, out @ whisper_full_get_segment_text api ctx i),
                   (api, ctx, i, n, out))
                  \<in> measure (\<lambda>(api, ctx, i, n, output). nat (sint n - sint i))"
    by simp
qed

text \<open>
  \<open>ProcessAudio\<close> (lines 474 to 569). \<open>params\<close> is passed by value: the adjustments are
  made on the copy and die with it. The result is the optional text, the context the
  engine leaves behind, and the engine calls made. \<open>static_cast<int>(pcmf32.size())\<close>
  keeps the low 32 bits of the size.
\<close>

definition ProcessAudio ::
  "('ctx, 's) whisper_api \<Rightarrow> store \<Rightarrow> 'ctx \<Rightarrow> whisper_params \<Rightarrow> string
     \<Rightarrow> string option \<times> 'ctx \<times> 's engine_call list" where
  "ProcessAudio api st ctx params0 audio_data =
     (case read_wav api audio_data of
        None \<Rightarrow> (None, ctx, [])
      | Some pcmf32 \<Rightarrow>
          (let params = job_params api ctx params0;
               wparams = make_wparams api params;
               n_samples = (word_of_nat (length pcmf32) :: int32);
               (status, ctx') = whisper_full_parallel api st ctx wparams pcmf32 n_samples
                                  (n_processors params);
               calls = [Call_full_parallel wparams pcmf32 n_samples (n_processors params) status]
           in if status \<noteq> 0 then (None, ctx', calls)
              else (Some (collect_segments api ctx' 0 (whisper_full_n_segments api ctx') []),
                    ctx', calls)))"

section \<open>Response text: \<open>EscapeDoubleQuotesAndBackslashes\<close>\<close>

text \<open>Both loops test \<open>c == '"' || c == '\\'\<close>.\<close>

definition needs_escape :: "char \<Rightarrow> bool" where
  "needs_escape c = (c = CHR 0x22 \<or> c = CHR 0x5C)"

text \<open>The first loop (lines 574 to 579) counts the length of the result.\<close>

fun count_escaped_length :: "string \<Rightarrow> nat \<Rightarrow> nat" where
  "count_escaped_length [] escaped_length = escaped_length"
| "count_escaped_length (c # cs) escaped_length =
     count_escaped_length cs (if needs_escape c then escaped_length + 1 else escaped_length)"

text \<open>
  \<open>escaped[pos] = c\<close> on a \<open>std::string\<close>: defined for \<open>pos\<close> below the size, undefined
  behaviour (\<open>None\<close>) otherwise.
\<close>

definition store_char :: "string \<Rightarrow> nat \<Rightarrow> char \<Rightarrow> string option" where
  "store_char escaped pos c = (if pos < length escaped then Some (escaped[pos := c]) else None)"

text \<open>The second loop (lines 582 to 588) writes the characters at \<open>pos++\<close>.\<close>

fun fill_escaped :: "string \<Rightarrow> string \<Rightarrow> nat \<Rightarrow> string option" where
  "fill_escaped [] escaped pos = Some escaped"
| "fill_escaped (c # cs) escaped pos =
     (if needs_escape c
      then (case store_char escaped pos (CHR 0x5C) of
              None \<Rightarrow> None
            | Some e1 \<Rightarrow>
                (case store_char e1 (pos + 1) c of
                   None \<Rightarrow> None
                 | Some e2 \<Rightarrow> fill_escaped cs e2 (pos + 2)))
      else (case store_char escaped pos c of
              None \<Rightarrow> None
            | Some e1 \<Rightarrow> fill_escaped cs e1 (pos + 1)))"

definition EscapeDoubleQuotesAndBackslashes :: "string \<Rightarrow> string option" where
  "EscapeDoubleQuotesAndBackslashes str =
     (let escaped_length = count_escaped_length str (length str);
          escaped = replicate escaped_length (CHR 0x00)
      in fill_escaped str escaped 0)"

text \<open>
  The reader's side of the round trip, in the words of the specification: standard
  unescaping drops one backslash before each escaped quote or backslash, and leaves every
  other character as it is.
\<close>

fun unescape :: "string \<Rightarrow> string" where
  "unescape [] = []"
| "unescape [c] = [c]"
| "unescape (c # d # cs) =
     (if c = CHR 0x5C \<and> needs_escape d then d # unescape cs else c # unescape (d # cs))"

text \<open>
  The text the two loops are meant to produce: every character in order, a backslash put
  before each quote and each backslash.
\<close>

definition escaped_text :: "string \<Rightarrow> string" where
  "escaped_text str = concat (map (\<lambda>c. if needs_escape c then [CHR 0x5C, c] else [c]) str)"

section \<open>The handler of \<open>POST /speech_to_text\<close>\<close>

text \<open>
  Of httplib's \<open>Request\<close>, \<open>MultipartFormData\<close> and \<open>Response\<close> the handler uses the
  multipart files (looked up by field name, first match), a file's content and content
  type, and \<open>set_content\<close>, which replaces the body and the \<open>Content-Type\<close> header.
\<close>

record MultipartFormData =
  content_type :: string
  content :: string

record Request =
  files :: "(string \<times> MultipartFormData) list"

record Response =
  body :: string
  Content_Type :: string

definition has_file :: "Request \<Rightarrow> string \<Rightarrow> bool" where
  "has_file request key = (map_of (files request) key \<noteq> None)"

definition get_file_value :: "Request \<Rightarrow> string \<Rightarrow> MultipartFormData" where
  "get_file_value request key =
     (case map_of (files request) key of
        Some file \<Rightarrow> file
      | None \<Rightarrow> \<lparr> content_type = [], content = [] \<rparr>)"

definition set_content :: "Response \<Rightarrow> string \<Rightarrow> string \<Rightarrow> Response" where
  "set_content response s ctype = response\<lparr> body := s, Content_Type := ctype \<rparr>"

definition kSpeechFileName :: string where
  "kSpeechFileName = ''speech''"

text \<open>
  What the handler's lambda captures by reference from \<open>main\<close>: the context pointer
  \<open>whisper_ctx\<close> and the configuration \<open>wparams\<close>; with them, the static storage of the
  process.
\<close>

record 'ctx server_state =
  whisper_ctx :: 'ctx
  wparams :: whisper_params
  statics :: store

text \<open>
  The lambda of lines 645 to 663. It yields the response, the state of the process after
  the request, and the engine calls made for it. \<open>ProcessAudio\<close> gets a copy of \<open>wparams\<close>;
  only the engine's context changes. An out-of-range write inside the escaping routine
  (undefined behaviour) would leave the model's response untouched; it cannot happen, see
  \<open>EscapeDoubleQuotesAndBackslashes_eq\<close>.
\<close>

definition speech_to_text_handler ::
  "('ctx, 's) whisper_api \<Rightarrow> 'ctx server_state \<Rightarrow> Request \<Rightarrow> Response
     \<Rightarrow> Response \<times> 'ctx server_state \<times> 's engine_call list" where
  "speech_to_text_handler api srv request response =
     (if \<not> has_file request kSpeechFileName
      then (set_content response ''Cannot find speech file in the multipart data.\<newline>''
              ''text/plain'', srv, [])
      else (let speech_data = get_file_value request kSpeechFileName;
                (result, ctx', calls) =
                   ProcessAudio api (statics srv) (whisper_ctx srv) (wparams srv)
                     (content speech_data);
                srv' = srv\<lparr> whisper_ctx := ctx' \<rparr>
            in (case result of
                  Some text \<Rightarrow>
                    (case EscapeDoubleQuotesAndBackslashes text of
                       Some escaped \<Rightarrow>
                         (set_content response
                            (''{'result': 1, 'text': '' @ [CHR 0x27] @ escaped
                               @ [CHR 0x27] @ ''}\<newline>'')
                            ''application/json'', srv', calls)
                     | None \<Rightarrow> (response, srv', calls))
                | None \<Rightarrow>
                    (set_content response ''{'result': 0}\<newline>'' ''application/json'',
                     srv', calls))))"

text \<open>Requests served one after the other, each on the state the previous one left.\<close>

fun serve_requests ::
  "('ctx, 's) whisper_api \<Rightarrow> 'ctx server_state \<Rightarrow> Request list
     \<Rightarrow> Response list \<times> 'ctx server_state \<times> 's engine_call list" where
  "serve_requests api srv [] = ([], srv, [])"
| "serve_requests api srv (request # requests) =
     (let (response, srv', calls) =
            speech_to_text_handler api srv request \<lparr> body = [], Content_Type = [] \<rparr>;
          (responses, srv'', calls') = serve_requests api srv' requests
      in (response # responses, srv'', calls @ calls'))"

text \<open>
  \<open>main\<close>, lines 602 to 611, from the parsed \<open>wparams\<close> on: the process exits with status
  1 when \<open>InitializeWhisper\<close> returns \<open>nullptr\<close>, and otherwise goes on to serve with the
  context and the configuration.
\<close>

datatype 'ctx startup = Exit int32 | Serving "'ctx server_state"

definition main_startup ::
  "('ctx, 's) whisper_api \<Rightarrow> whisper_params \<Rightarrow> 'ctx startup \<times> 's engine_call list" where
  "main_startup api params =
     (case InitializeWhisper api params of
        (Inl err, calls) \<Rightarrow> (Exit 1, calls)
      | (Inr ctx, calls) \<Rightarrow>
          (Serving \<lparr> whisper_ctx = ctx, wparams = params, statics = initial_store \<rparr>, calls))"

section \<open>The audio decoder\<close>

text \<open>
  Modelled from the spec: \<open>read_wav\<close> (declared in common.h, defined in common.cpp) is not
  among the sources. Section 4.2 of the specification: the decoder fails with a
  DecodeError on a malformed header, an unsupported channel layout or a truncated stream
  (here: the container parser \<open>parse_container\<close> yields \<open>None\<close>), and it must never accept
  an empty buffer as a success: a container that decodes to no samples is an error too.
\<close>

definition read_wav_spec :: "(string \<Rightarrow> 's list option) \<Rightarrow> string \<Rightarrow> 's list option" where
  "read_wav_spec parse_container rawBytes =
     (case parse_container rawBytes of
        None \<Rightarrow> None
      | Some pcmf32 \<Rightarrow> (if pcmf32 = [] then None else Some pcmf32))"

section \<open>A concrete engine\<close>

text \<open>
  An engine to run the model on: its context is the list of segment texts of the last
  run; every run returns the given status and leaves the given segments; the model file
  of the defaults loads, any other does not; the languages known are \<open>en\<close> and \<open>de\<close>;
  the decoder reads one sample per byte and rejects the empty upload.
\<close>

definition example_default_params :: "whisper_sampling_strategy \<Rightarrow> whisper_full_params" where
  "example_default_params s =
     \<lparr> strategy = s,
       print_realtime = False,
       print_progress = True,
       print_timestamps = True,
       print_special = False,
       translate = False,
       language = ''en'',
       detect_language = False,
       n_threads = 4,
       n_max_text_ctx = 16384,
       offset_ms = 0,
       duration_ms = 0,
       token_timestamps = False,
       thold_pt = 0.01,
       max_len = 0,
       split_on_word = False,
       speed_up = False,
       tdrz_enable = False,
       initial_prompt = [],
       greedy_best_of = - 1,
       beam_search_beam_size = - 1,
       temperature_inc = 0.4,
       entropy_thold = 2.4,
       logprob_thold = - 1.0,
       encoder_begin_callback = None,
       encoder_begin_callback_user_data = Nullptr \<rparr>"

definition example_api :: "bool \<Rightarrow> int32 \<Rightarrow> string list \<Rightarrow> (string list, nat) whisper_api" where
  "example_api multilingual status segments =
     \<lparr> whisper_lang_id = (\<lambda>l. if l = ''en'' then 0 else if l = ''de'' then 2 else - 1),
       whisper_init_from_file = (\<lambda>f. if f = ''models/ggml-base.en.bin'' then Some [] else None),
       whisper_ctx_init_openvino_encoder = (\<lambda>ctx device. ctx),
       whisper_is_multilingual = (\<lambda>ctx. multilingual),
       whisper_full_default_params = example_default_params,
       whisper_full_parallel = (\<lambda>st ctx wparams pcmf32 n_samples n_processors. (status, segments)),
       whisper_full_n_segments = (\<lambda>ctx. word_of_nat (length ctx)),
       whisper_full_get_segment_text = (\<lambda>ctx i. ctx ! unat i),
       read_wav = (\<lambda>bytes. if bytes = [] then None else Some (map of_char bytes)) \<rparr>"

text \<open>A toy container: a header of four bytes, then one sample per byte.\<close>

definition example_parse_container :: "string \<Rightarrow> nat list option" where
  "example_parse_container bytes =
     (if length bytes < 4 then None else Some (map of_char (drop 4 bytes)))"

definition example_server :: "string list server_state" where
  "example_server =
     \<lparr> whisper_ctx = [], wparams = default_whisper_params 8, statics = initial_store \<rparr>"

definition speech_request :: "string \<Rightarrow> Request" where
  "speech_request bytes =
     \<lparr> files = [(''speech'', \<lparr> content_type = ''audio/wav'', content = bytes \<rparr>)] \<rparr>"

text \<open>The configurations and requests the properties below are run on.\<close>

definition per_word_params :: whisper_params where
  "per_word_params = (default_whisper_params 8)\<lparr> output_wts := True, no_fallback := True \<rparr>"

definition unknown_language_params :: whisper_params where
  "unknown_language_params = (default_whisper_params 8)\<lparr> whisper_params.language := ''xx'' \<rparr>"

definition german_params :: whisper_params where
  "german_params = (default_whisper_params 8)\<lparr> whisper_params.language := ''de'' \<rparr>"

definition german_detect_params :: whisper_params where
  "german_detect_params =
     (default_whisper_params 8)\<lparr> whisper_params.language := ''de'',
                                   whisper_params.detect_language := True \<rparr>"

definition german_server :: "string list server_state" where
  "german_server = \<lparr> whisper_ctx = [], wparams = german_params, statics = initial_store \<rparr>"

definition other_field_request :: Request where
  "other_field_request =
     \<lparr> files = [(''audio'', \<lparr> content_type = ''audio/wav'', content = ''RIFF'' \<rparr>)] \<rparr>"

text \<open>The concrete engine with the decoder of the specification in front of the toy container.\<close>

definition spec_decoder_api :: "(string list, nat) whisper_api" where
  "spec_decoder_api =
     (example_api True 0 [])\<lparr> read_wav := read_wav_spec example_parse_container \<rparr>"

section \<open>Properties of the escaping routine\<close>

lemma count_escaped_length_eq:
  "count_escaped_length str n = n + length (filter needs_escape str)"
  by (induction str arbitrary: n) simp_all

lemma length_escaped_text:
  "length (escaped_text str) = length str + length (filter needs_escape str)"
  by (induction str) (simp_all add: escaped_text_def)

lemma store_char_append:
  "store_char (pre @ x # rest) (length pre) c = Some (pre @ c # rest)"
  by (simp add: store_char_def)

lemma store_char_append1:
  "store_char (pre @ b # x # rest) (Suc (length pre)) c = Some (pre @ b # c # rest)"
  using store_char_append [of "pre @ [b]" x rest c] by simp

text \<open>
  With \<open>pos\<close> characters written and room for the rest, the second loop never writes out
  of range and leaves the escaped text behind what was written before.
\<close>

lemma fill_escaped_eq:
  "length rest = length (escaped_text str) + m \<Longrightarrow>
   fill_escaped str (pre @ rest) (length pre)
     = Some (pre @ escaped_text str @ drop (length (escaped_text str)) rest)"
proof (induction str arbitrary: pre rest)
  case Nil
  then show ?case by (simp add: escaped_text_def)
next
  case (Cons c cs)
  show ?case
  proof (cases "needs_escape c")
    case True
    with Cons.prems obtain x y rest' where rest: "rest = x # y # rest'"
      and len: "length rest' = length (escaped_text cs) + m"
      by (cases rest; cases "tl rest") (auto simp: escaped_text_def)
    have "fill_escaped (c # cs) (pre @ rest) (length pre)
        = fill_escaped cs ((pre @ [CHR 0x5C, c]) @ rest') (length (pre @ [CHR 0x5C, c]))"
      using True by (simp add: rest store_char_append store_char_append1)
    also have "\<dots> = Some ((pre @ [CHR 0x5C, c]) @ escaped_text cs
                          @ drop (length (escaped_text cs)) rest')"
      by (rule Cons.IH [OF len])
    finally show ?thesis using True by (simp add: rest escaped_text_def)
  next
    case False
    with Cons.prems obtain x rest' where rest: "rest = x # rest'"
      and len: "length rest' = length (escaped_text cs) + m"
      by (cases rest) (auto simp: escaped_text_def)
    have "fill_escaped (c # cs) (pre @ rest) (length pre)
        = fill_escaped cs ((pre @ [c]) @ rest') (length (pre @ [c]))"
      using False by (simp add: rest store_char_append)
    also have "\<dots> = Some ((pre @ [c]) @ escaped_text cs
                          @ drop (length (escaped_text cs)) rest')"
      by (rule Cons.IH [OF len])
    finally show ?thesis using False by (simp add: rest escaped_text_def)
  qed
qed

text \<open>
  The routine is free of out-of-range writes on every input, and its result is the
  escaped text: the first loop counts exactly the room the second one needs.
\<close>

lemma EscapeDoubleQuotesAndBackslashes_eq:
  "EscapeDoubleQuotesAndBackslashes str = Some (escaped_text str)"
proof -
  let ?rest = "replicate (length (escaped_text str)) (CHR 0x00)"
  have "fill_escaped str ([] @ ?rest) (length ([] :: string))
      = Some ([] @ escaped_text str @ drop (length (escaped_text str)) ?rest)"
    by (rule fill_escaped_eq [where m = 0]) simp
  then show ?thesis
    by (simp add: EscapeDoubleQuotesAndBackslashes_def count_escaped_length_eq
        length_escaped_text)
qed

lemma unescape_plain: "\<not> needs_escape c \<Longrightarrow> unescape (c # cs) = c # unescape cs"
  by (cases cs) (auto simp: needs_escape_def)

lemma unescape_escaped_text: "unescape (escaped_text str) = str"
  by (induction str) (simp_all add: escaped_text_def unescape_plain)

text \<open>
  Claim C5. For every string (so in particular for every string of printable characters
  with quotes and backslashes among them), \<open>EscapeDoubleQuotesAndBackslashes\<close> returns a
  string, and standard unescaping of that string, which drops one backslash before each
  escaped quote or backslash, gives the original string back.
\<close>

theorem escape_then_unescape_recovers:
  "\<exists>escaped. EscapeDoubleQuotesAndBackslashes str = Some escaped \<and> unescape escaped = str"
  by (simp add: EscapeDoubleQuotesAndBackslashes_eq unescape_escaped_text)

section \<open>What a job asks of the engine\<close>

lemmas example_simps =
  example_api_def example_server_def speech_request_def default_whisper_params_def
  example_default_params_def ProcessAudio_def speech_to_text_handler_def has_file_def
  get_file_value_def kSpeechFileName_def set_content_def job_params_def
  ignore_language_options_def apply_detect_language_def make_wparams_def c_str_def
  initial_store_def

text \<open>
  A job makes no engine call when the audio cannot be read, and exactly one otherwise:
  the run on the parameter block built from the job's own copy of the configuration.
\<close>

lemma ProcessAudio_calls:
  "snd (snd (ProcessAudio api st ctx params audio_data)) =
     (case read_wav api audio_data of
        None \<Rightarrow> []
      | Some pcmf32 \<Rightarrow>
          [Call_full_parallel (make_wparams api (job_params api ctx params)) pcmf32
             (word_of_nat (length pcmf32)) (n_processors (job_params api ctx params))
             (fst (whisper_full_parallel api st ctx
                     (make_wparams api (job_params api ctx params))
                     pcmf32 (word_of_nat (length pcmf32))
                     (n_processors (job_params api ctx params))))])"
  by (simp add: ProcessAudio_def Let_def case_prod_beta split: option.split)

lemma ProcessAudio_result_None:
  "read_wav api audio_data = Some pcmf32 \<Longrightarrow>
   fst (whisper_full_parallel api st ctx (make_wparams api (job_params api ctx params))
          pcmf32 (word_of_nat (length pcmf32)) (n_processors (job_params api ctx params)))
     \<noteq> 0 \<Longrightarrow>
   fst (ProcessAudio api st ctx params audio_data) = None"
  by (simp add: ProcessAudio_def Let_def case_prod_beta)

lemma ProcessAudio_failed_call:
  assumes "Call_full_parallel w pcm n np status
             \<in> set (snd (snd (ProcessAudio api st ctx params audio_data)))"
    and "status \<noteq> 0"
  shows "fst (ProcessAudio api st ctx params audio_data) = None"
proof (cases "read_wav api audio_data")
  case None
  then show ?thesis by (simp add: ProcessAudio_def)
next
  case (Some pcmf32)
  with assms show ?thesis
    by (auto simp: ProcessAudio_calls intro: ProcessAudio_result_None)
qed

lemma handler_calls:
  "has_file request kSpeechFileName \<Longrightarrow>
   snd (snd (speech_to_text_handler api srv request response)) =
   snd (snd (ProcessAudio api (statics srv) (whisper_ctx srv) (wparams srv)
               (content (get_file_value request kSpeechFileName))))"
  by (simp add: speech_to_text_handler_def Let_def case_prod_beta split: option.split)

lemma handler_no_file:
  "\<not> has_file request kSpeechFileName \<Longrightarrow>
   speech_to_text_handler api srv request response =
     (set_content response ''Cannot find speech file in the multipart data.\<newline>''
        ''text/plain'', srv, [])"
  by (simp add: speech_to_text_handler_def)

lemma handler_result_None:
  "has_file request kSpeechFileName \<Longrightarrow>
   fst (ProcessAudio api (statics srv) (whisper_ctx srv) (wparams srv)
          (content (get_file_value request kSpeechFileName))) = None \<Longrightarrow>
   fst (speech_to_text_handler api srv request response) =
     set_content response ''{'result': 0}\<newline>'' ''application/json''"
  by (simp add: speech_to_text_handler_def Let_def case_prod_beta)

lemma handler_wparams:
  "wparams (fst (snd (speech_to_text_handler api srv request response))) = wparams srv"
  by (simp add: speech_to_text_handler_def Let_def case_prod_beta split: option.split)

lemma handler_statics:
  "statics (fst (snd (speech_to_text_handler api srv request response))) = statics srv"
  by (simp add: speech_to_text_handler_def Let_def case_prod_beta split: option.split)

lemma serve_requests_wparams:
  "wparams (fst (snd (serve_requests api srv requests))) = wparams srv"
proof (induction requests arbitrary: srv)
  case Nil
  show ?case by simp
next
  case (Cons request requests)
  let ?srv' = "fst (snd (speech_to_text_handler api srv request
                           \<lparr> body = [], Content_Type = [] \<rparr>))"
  have "wparams (fst (snd (serve_requests api srv (request # requests))))
      = wparams (fst (snd (serve_requests api ?srv' requests)))"
    by (simp add: case_prod_beta Let_def)
  also have "\<dots> = wparams ?srv'"
    by (rule Cons.IH)
  also have "\<dots> = wparams srv"
    by (rule handler_wparams)
  finally show ?case .
qed

lemma sint_of_nat_small:
  assumes "n < 2 ^ 31"
  shows "sint (word_of_nat n :: int32) = int n"
proof -
  have "signed_take_bit 31 (int n) = int n"
    by (rule signed_take_bit_int_eq_self) (use assms in simp_all)
  then show ?thesis
    by (simp add: signed_of_nat)
qed

section \<open>The abort flag\<close>

text \<open>
  Claim C2, refuted as stated. Two distinct jobs, one with the default configuration on
  the upload \<open>RIFF\<close> and one with language \<open>de\<close> on the upload \<open>WAVE\<close>, each make one engine
  run, and the \<open>user_data\<close> of both runs is the same address: that of the static
  \<open>is_aborted\<close>. The abort signal is not a per-job token.
\<close>

theorem per_job_token_counterexample:
  "default_whisper_params 8 \<noteq> german_params
   \<and> snd (snd (ProcessAudio (example_api True 0 []) initial_store [] (default_whisper_params 8)
                 ''RIFF''))
       = [Call_full_parallel (make_wparams (example_api True 0 []) (default_whisper_params 8))
            [82, 73, 70, 70] 4 1 0]
   \<and> snd (snd (ProcessAudio (example_api True 0 []) initial_store [] german_params ''WAVE''))
       = [Call_full_parallel (make_wparams (example_api True 0 []) german_params)
            [87, 65, 86, 69] 4 1 0]
   \<and> encoder_begin_callback_user_data
        (make_wparams (example_api True 0 []) (default_whisper_params 8))
       = encoder_begin_callback_user_data (make_wparams (example_api True 0 []) german_params)
   \<and> encoder_begin_callback_user_data (make_wparams (example_api True 0 []) german_params)
       = Addr_is_aborted"
  by (simp add: german_params_def example_simps)

text \<open>
  Claim C2, as amended. For every engine run of every job, the encoder-begin callback is
  the lambda of \<open>ProcessAudio\<close> and its \<open>user_data\<close> is the address of the one static flag
  \<open>is_aborted\<close>; called on any store, the callback answers the negation of that flag; and
  handling a request leaves the static storage as it was.
\<close>

theorem abort_flag_is_one_static:
  assumes "Call_full_parallel w pcm n np status
             \<in> set (snd (snd (ProcessAudio api st ctx params audio_data)))"
  shows "encoder_begin_callback w = Some encoder_begin_lambda
       \<and> encoder_begin_callback_user_data w = Addr_is_aborted
       \<and> encoder_begin_lambda st' (encoder_begin_callback_user_data w)
           = Some (\<not> st' Addr_is_aborted)
       \<and> statics (fst (snd (speech_to_text_handler api srv request response))) = statics srv"
proof -
  from assms have w: "w = make_wparams api (job_params api ctx params)"
    by (cases "read_wav api audio_data") (simp_all add: ProcessAudio_calls)
  show ?thesis
    by (simp add: w make_wparams_def Let_def encoder_begin_lambda_def handler_statics)
qed

text \<open>The amended claim C2 on the job with language \<open>de\<close> and the upload \<open>WAVE\<close>.\<close>

theorem abort_flag_is_one_static_witness:
  "Call_full_parallel (make_wparams (example_api True 0 []) german_params)
     [87, 65, 86, 69] 4 1 0
     \<in> set (snd (snd (ProcessAudio (example_api True 0 []) initial_store [] german_params
                        ''WAVE'')))
   \<and> encoder_begin_callback (make_wparams (example_api True 0 []) german_params)
       = Some encoder_begin_lambda
   \<and> encoder_begin_callback_user_data (make_wparams (example_api True 0 []) german_params)
       = Addr_is_aborted
   \<and> encoder_begin_lambda initial_store
        (encoder_begin_callback_user_data (make_wparams (example_api True 0 []) german_params))
       = Some True"
proof -
  have call: "Call_full_parallel (make_wparams (example_api True 0 []) german_params)
     [87, 65, 86, 69] 4 1 0
     \<in> set (snd (snd (ProcessAudio (example_api True 0 []) initial_store [] german_params
                        ''WAVE'')))"
    by (simp add: german_params_def example_simps)
  from abort_flag_is_one_static [OF call, of initial_store example_server
      "speech_request ''WAVE''" "\<lparr> body = [], Content_Type = [] \<rparr>"] call
  show ?thesis
    by (auto simp: initial_store_def)
qed

section \<open>Empty audio\<close>

text \<open>
  Claim C3, with the decoder of the specification. When \<open>read_wav\<close> is the decoder
  of section 4.2, an upload whose container decodes to no samples makes \<open>ProcessAudio\<close>
  return the error (\<open>nullopt\<close>) without any engine call, and every buffer that a job does
  submit is non-empty; below \<open>2 ^ 31\<close> samples the count handed to the engine is the
  buffer's length, so it is not zero either.
\<close>

theorem no_empty_buffer_submitted:
  assumes "read_wav api = read_wav_spec parse_container"
  shows "(parse_container audio_data = Some []
            \<longrightarrow> ProcessAudio api st ctx params audio_data = (None, ctx, []))
       \<and> (\<forall>w pcm n np status.
            Call_full_parallel w pcm n np status
              \<in> set (snd (snd (ProcessAudio api st ctx params audio_data)))
            \<longrightarrow> pcm \<noteq> []
                \<and> (length pcm < 2 ^ 31 \<longrightarrow> sint n = int (length pcm) \<and> n \<noteq> 0))"
proof (intro conjI allI impI)
  assume "parse_container audio_data = Some []"
  with assms show "ProcessAudio api st ctx params audio_data = (None, ctx, [])"
    by (simp add: ProcessAudio_def read_wav_spec_def)
next
  fix w pcm n np status
  assume call: "Call_full_parallel w pcm n np status
              \<in> set (snd (snd (ProcessAudio api st ctx params audio_data)))"
  then have wav: "read_wav api audio_data = Some pcm" and n: "n = word_of_nat (length pcm)"
    by (cases "read_wav api audio_data"; simp add: ProcessAudio_calls)+
  from wav assms show nonempty: "pcm \<noteq> []"
    by (auto simp: read_wav_spec_def split: option.splits if_splits)
  assume "length pcm < 2 ^ 31"
  then show "sint n = int (length pcm)"
    by (simp add: n sint_of_nat_small)
  with nonempty show "n \<noteq> 0"
    by auto
qed

text \<open>
  Claim C3 on the toy container: \<open>RIFF\<close> is a header without samples and is refused;
  \<open>RIFFab\<close> carries two samples, which are submitted.
\<close>

theorem no_empty_buffer_submitted_witness:
  "read_wav spec_decoder_api = read_wav_spec example_parse_container
   \<and> example_parse_container ''RIFF'' = Some []
   \<and> ProcessAudio spec_decoder_api initial_store [] (default_whisper_params 8) ''RIFF''
       = (None, [], [])
   \<and> Call_full_parallel (make_wparams spec_decoder_api (default_whisper_params 8)) [97, 98] 2 1 0
       \<in> set (snd (snd (ProcessAudio spec_decoder_api initial_store []
                          (default_whisper_params 8) ''RIFFab'')))
   \<and> [97, 98 :: nat] \<noteq> [] \<and> length [97, 98 :: nat] < 2 ^ 31
   \<and> sint (2 :: int32) = int (length [97, 98 :: nat])"
proof -
  have spec: "read_wav spec_decoder_api = read_wav_spec example_parse_container"
    by (simp add: spec_decoder_api_def)
  have empty: "example_parse_container ''RIFF'' = Some []"
    by (simp add: example_parse_container_def)
  have call: "Call_full_parallel (make_wparams spec_decoder_api (default_whisper_params 8))
       [97, 98] 2 1 0
       \<in> set (snd (snd (ProcessAudio spec_decoder_api initial_store []
                          (default_whisper_params 8) ''RIFFab'')))"
    by (simp add: spec_decoder_api_def read_wav_spec_def example_parse_container_def
        example_simps)
  from no_empty_buffer_submitted [OF spec, of "''RIFF''" initial_store "[]"
      "default_whisper_params 8"] empty
  have first: "ProcessAudio spec_decoder_api initial_store [] (default_whisper_params 8) ''RIFF''
       = (None, [], [])"
    by blast
  from no_empty_buffer_submitted [OF spec, of "''RIFFab''" initial_store "[]"
      "default_whisper_params 8"] call
  have "[97, 98 :: nat] \<noteq> [] \<and> (length [97, 98 :: nat] < 2 ^ 31
       \<longrightarrow> sint (2 :: int32) = int (length [97, 98 :: nat]) \<and> (2 :: int32) \<noteq> 0)"
    by blast
  with spec empty call first show ?thesis
    by simp
qed

section \<open>A failed engine run\<close>

text \<open>
  Claim C4. Whenever the engine run made for a request returns a non-zero status,
  \<open>ProcessAudio\<close> returns the error (\<open>nullopt\<close>, no text), and the response of the handler
  is exactly the failure payload, which has no text field: nothing of what the engine may
  have left in its context is returned.
\<close>

theorem failed_run_returns_no_text:
  assumes "Call_full_parallel w pcm n np status
             \<in> set (snd (snd (speech_to_text_handler api srv request response)))"
    and "status \<noteq> 0"
  shows "fst (ProcessAudio api (statics srv) (whisper_ctx srv) (wparams srv)
                (content (get_file_value request kSpeechFileName))) = None
       \<and> fst (speech_to_text_handler api srv request response) =
           set_content response ''{'result': 0}\<newline>'' ''application/json''"
proof -
  have speech: "has_file request kSpeechFileName"
    using assms(1) by (cases "has_file request kSpeechFileName") (simp_all add: handler_no_file)
  with assms have none: "fst (ProcessAudio api (statics srv) (whisper_ctx srv) (wparams srv)
                (content (get_file_value request kSpeechFileName))) = None"
    by (auto simp: handler_calls intro: ProcessAudio_failed_call)
  with speech show ?thesis by (simp add: handler_result_None)
qed

text \<open>
  Claim C4 on an engine that fails with status 1 after leaving a segment of partial text
  in its context.
\<close>

theorem failed_run_returns_no_text_witness:
  "Call_full_parallel
     (make_wparams (example_api True 1 [''partial text'']) (default_whisper_params 8))
     [82, 73, 70, 70] 4 1 1
     \<in> set (snd (snd (speech_to_text_handler (example_api True 1 [''partial text''])
                        example_server (speech_request ''RIFF'')
                        \<lparr> body = [], Content_Type = [] \<rparr>)))
   \<and> (1 :: int32) \<noteq> 0
   \<and> fst (ProcessAudio (example_api True 1 [''partial text'']) (statics example_server)
            (whisper_ctx example_server) (wparams example_server)
            (content (get_file_value (speech_request ''RIFF'') kSpeechFileName))) = None
   \<and> fst (speech_to_text_handler (example_api True 1 [''partial text''])
            example_server (speech_request ''RIFF'') \<lparr> body = [], Content_Type = [] \<rparr>)
       = \<lparr> body = ''{'result': 0}\<newline>'', Content_Type = ''application/json'' \<rparr>"
proof -
  have call: "Call_full_parallel
     (make_wparams (example_api True 1 [''partial text'']) (default_whisper_params 8))
     [82, 73, 70, 70] 4 1 1
     \<in> set (snd (snd (speech_to_text_handler (example_api True 1 [''partial text''])
                        example_server (speech_request ''RIFF'')
                        \<lparr> body = [], Content_Type = [] \<rparr>)))"
    by (simp add: example_simps)
  have status: "(1 :: int32) \<noteq> 0"
    by simp
  from failed_run_returns_no_text [OF call status] call status show ?thesis
    by (simp add: set_content_def)
qed

section \<open>Derived fields of the parameter block\<close>

text \<open>
  Claim C6. In the parameter block of every engine run of a job with configuration
  \<open>params\<close>: if per-word output (\<open>output_wts\<close>) is requested and \<open>max_len\<close> is 0, then
  \<open>max_len\<close> is 60; \<open>token_timestamps\<close> is true whenever per-word output is requested or
  \<open>max_len > 0\<close>; and if fallback is disabled (\<open>no_fallback\<close>), \<open>temperature_inc\<close> is zero.
\<close>

theorem derived_fields_of_every_job:
  assumes "Call_full_parallel w pcm n np status
             \<in> set (snd (snd (ProcessAudio api st ctx params audio_data)))"
  shows "(output_wts params \<and> whisper_params.max_len params = 0
            \<longrightarrow> whisper_full_params.max_len w = 60)
       \<and> (output_wts params \<or> 0 < sint (whisper_params.max_len params)
            \<longrightarrow> token_timestamps w)
       \<and> (no_fallback params \<longrightarrow> temperature_inc w = 0)"
proof -
  from assms have w: "w = make_wparams api (job_params api ctx params)"
    by (cases "read_wav api audio_data") (simp_all add: ProcessAudio_calls)
  show ?thesis
    by (simp add: w make_wparams_def job_params_def apply_detect_language_def
        ignore_language_options_def Let_def)
qed

text \<open>Claim C6 on the defaults with per-word output requested and fallback disabled.\<close>

theorem derived_fields_of_every_job_witness:
  "Call_full_parallel (make_wparams (example_api True 0 []) per_word_params)
     [82, 73, 70, 70] 4 1 0
     \<in> set (snd (snd (ProcessAudio (example_api True 0 []) initial_store [] per_word_params
                        ''RIFF'')))
   \<and> output_wts per_word_params \<and> whisper_params.max_len per_word_params = 0
   \<and> no_fallback per_word_params
   \<and> whisper_full_params.max_len (make_wparams (example_api True 0 []) per_word_params) = 60
   \<and> token_timestamps (make_wparams (example_api True 0 []) per_word_params)
   \<and> temperature_inc (make_wparams (example_api True 0 []) per_word_params) = 0"
proof -
  have call: "Call_full_parallel (make_wparams (example_api True 0 []) per_word_params)
     [82, 73, 70, 70] 4 1 0
     \<in> set (snd (snd (ProcessAudio (example_api True 0 []) initial_store [] per_word_params
                        ''RIFF'')))"
    by (simp add: example_simps per_word_params_def)
  have hyps: "output_wts per_word_params \<and> whisper_params.max_len per_word_params = 0
     \<and> no_fallback per_word_params"
    by (simp add: per_word_params_def default_whisper_params_def)
  from derived_fields_of_every_job [OF call] call hyps show ?thesis
    by simp
qed

section \<open>Configuration errors at startup\<close>

text \<open>
  Claim C7. \<open>InitializeWhisper\<close> fails with a configuration error (the unknown-language or
  the diarize-and-tinydiarize message) if and only if the language is not \<open>auto\<close> and
  \<open>whisper_lang_id\<close> does not know it, or \<open>diarize\<close> and \<open>tinydiarize\<close> are both set; and
  then no engine call has been made (no model is loaded), and \<open>main\<close> exits with status 1
  before any request is served.
\<close>

theorem config_error_iff:
  "((\<exists>err. fst (InitializeWhisper api params) = Inl err \<and> is_ConfigError err)
      \<longleftrightarrow> (whisper_params.language params \<noteq> ''auto''
             \<and> whisper_lang_id api (c_str (whisper_params.language params)) = - 1)
           \<or> (diarize params \<and> tinydiarize params))
   \<and> ((\<exists>err. fst (InitializeWhisper api params) = Inl err \<and> is_ConfigError err)
        \<longrightarrow> snd (InitializeWhisper api params) = []
            \<and> main_startup api params = (Exit 1, []))"
  by (auto simp: InitializeWhisper_def main_startup_def split: option.splits)

text \<open>Claim C7 on the defaults with the unknown language code \<open>xx\<close>.\<close>

theorem config_error_iff_witness:
  "fst (InitializeWhisper (example_api True 0 []) unknown_language_params)
     = Inl (Unknown_language ''xx'')
   \<and> is_ConfigError (Unknown_language ''xx'')
   \<and> whisper_params.language unknown_language_params \<noteq> ''auto''
   \<and> whisper_lang_id (example_api True 0 [])
        (c_str (whisper_params.language unknown_language_params)) = - 1
   \<and> snd (InitializeWhisper (example_api True 0 []) unknown_language_params) = []
   \<and> main_startup (example_api True 0 []) unknown_language_params = (Exit 1, [])"
proof -
  have err: "fst (InitializeWhisper (example_api True 0 []) unknown_language_params)
     = Inl (Unknown_language ''xx'') \<and> is_ConfigError (Unknown_language ''xx'')"
    by (simp add: InitializeWhisper_def unknown_language_params_def example_simps)
  have lang: "whisper_params.language unknown_language_params \<noteq> ''auto''
   \<and> whisper_lang_id (example_api True 0 [])
        (c_str (whisper_params.language unknown_language_params)) = - 1"
    by (simp add: unknown_language_params_def example_simps)
  from err have "\<exists>e. fst (InitializeWhisper (example_api True 0 []) unknown_language_params)
     = Inl e \<and> is_ConfigError e"
    by blast
  with config_error_iff [of "example_api True 0 []" unknown_language_params]
  have "snd (InitializeWhisper (example_api True 0 []) unknown_language_params) = []
   \<and> main_startup (example_api True 0 []) unknown_language_params = (Exit 1, [])"
    by blast
  with err lang show ?thesis by blast
qed

section \<open>Requests without the speech field\<close>

text \<open>
  Claim C8. For every request whose multipart body has no \<open>speech\<close> field, the handler
  answers at once with the plain-text error message, leaves the state of the process as
  it is, and makes no engine call.
\<close>

theorem missing_speech_field:
  assumes "\<not> has_file request kSpeechFileName"
  shows "speech_to_text_handler api srv request response =
           (set_content response ''Cannot find speech file in the multipart data.\<newline>''
              ''text/plain'', srv, [])"
  using assms by (rule handler_no_file)

text \<open>Claim C8 on a request that carries its audio in a field named \<open>audio\<close>.\<close>

theorem missing_speech_field_witness:
  "\<not> has_file other_field_request kSpeechFileName
   \<and> speech_to_text_handler (example_api True 0 [''text'']) example_server other_field_request
        \<lparr> body = [], Content_Type = [] \<rparr>
       = (\<lparr> body = ''Cannot find speech file in the multipart data.\<newline>'',
             Content_Type = ''text/plain'' \<rparr>, example_server, [])"
proof -
  have no_speech: "\<not> has_file other_field_request kSpeechFileName"
    by (simp add: has_file_def other_field_request_def kSpeechFileName_def)
  from missing_speech_field [OF no_speech, of "example_api True 0 [''text'']" example_server
      "\<lparr> body = [], Content_Type = [] \<rparr>"] no_speech
  show ?thesis by (simp add: set_content_def)
qed

section \<open>The configuration is never written\<close>

text \<open>
  Claim C9. Handling a request leaves the process-wide configuration \<open>wparams\<close> as it
  was, and so does serving any sequence of requests: \<open>ProcessAudio\<close> works on its own
  copy, so every request starts from the configuration of startup, whatever the jobs
  before it changed in their copies.
\<close>

theorem configuration_never_mutated:
  "wparams (fst (snd (speech_to_text_handler api srv request response))) = wparams srv
   \<and> wparams (fst (snd (serve_requests api srv requests))) = wparams srv"
  by (simp add: handler_wparams serve_requests_wparams)

text \<open>
  Claim C9 on a model that is not multilingual and a configuration with language \<open>de\<close>:
  each of two jobs runs on a copy with language \<open>en\<close>, each starts from the configuration
  of startup, and the configuration still says \<open>de\<close> afterwards.
\<close>

theorem configuration_never_mutated_witness:
  "whisper_params.language (job_params (example_api False 0 [''hello'']) [] german_params)
     = ''en''
   \<and> whisper_params.language (wparams german_server) = ''de''
   \<and> wparams (fst (snd (serve_requests (example_api False 0 [''hello'']) german_server
                          [speech_request ''RIFF'', speech_request ''WAVE''])))
       = wparams german_server
   \<and> map call_wparams
        (snd (snd (serve_requests (example_api False 0 [''hello'']) german_server
                     [speech_request ''RIFF'', speech_request ''WAVE''])))
       = [make_wparams (example_api False 0 [''hello''])
            (job_params (example_api False 0 [''hello'']) [] german_params),
          make_wparams (example_api False 0 [''hello''])
            (job_params (example_api False 0 [''hello'']) [''hello''] german_params)]"
proof -
  have "whisper_params.language (job_params (example_api False 0 [''hello'']) [] german_params)
     = ''en''
   \<and> whisper_params.language (wparams german_server) = ''de''"
    by (simp add: german_params_def german_server_def example_simps)
  moreover have "map call_wparams
        (snd (snd (serve_requests (example_api False 0 [''hello'']) german_server
                     [speech_request ''RIFF'', speech_request ''WAVE''])))
       = [make_wparams (example_api False 0 [''hello''])
            (job_params (example_api False 0 [''hello'']) [] german_params),
          make_wparams (example_api False 0 [''hello''])
            (job_params (example_api False 0 [''hello'']) [''hello''] german_params)]"
    by (simp add: german_params_def german_server_def example_simps
        EscapeDoubleQuotesAndBackslashes_eq)
  ultimately show ?thesis
    using configuration_never_mutated [of "example_api False 0 [''hello'']" german_server
        "speech_request ''RIFF''" "\<lparr> body = [], Content_Type = [] \<rparr>"
        "[speech_request ''RIFF'', speech_request ''WAVE'']"]
    by blast
qed

section \<open>Language options of a job\<close>

text \<open>
  Claim C10, refuted as stated. On a model that is not multilingual, the job with language
  \<open>de\<close> and \<open>detect_language\<close> set is run with language \<open>auto\<close>, not \<open>en\<close>: the assignment
  of line 498 comes after the one of line 492.
\<close>

theorem forced_english_counterexample:
  "\<not> whisper_is_multilingual (example_api False 0 []) []
   \<and> whisper_params.language german_detect_params \<noteq> ''en''
   \<and> whisper_params.detect_language german_detect_params
   \<and> snd (snd (ProcessAudio (example_api False 0 []) initial_store [] german_detect_params
                 ''RIFF''))
       = [Call_full_parallel
            (make_wparams (example_api False 0 [])
               (job_params (example_api False 0 []) [] german_detect_params))
            [82, 73, 70, 70] 4 1 0]
   \<and> whisper_full_params.language
        (make_wparams (example_api False 0 [])
           (job_params (example_api False 0 []) [] german_detect_params)) = ''auto''
   \<and> whisper_full_params.language
        (make_wparams (example_api False 0 [])
           (job_params (example_api False 0 []) [] german_detect_params)) \<noteq> ''en''"
  by (simp add: german_detect_params_def example_simps)

text \<open>
  Claim C10, as amended. Every job whose audio was read makes exactly one engine run (it
  does not fail on account of its language options). If \<open>detect_language\<close> is set, the
  language of the run is \<open>auto\<close>. If the model is not multilingual and the configuration
  has a language other than \<open>en\<close> or has \<open>translate\<close> set, the run has \<open>translate\<close> false
  and, unless \<open>detect_language\<close> is set, language \<open>en\<close>.
\<close>

theorem language_of_every_job:
  assumes "read_wav api audio_data = Some pcm"
  shows "\<exists>w n np status.
           snd (snd (ProcessAudio api st ctx params audio_data))
             = [Call_full_parallel w pcm n np status]
           \<and> (whisper_params.detect_language params
                \<longrightarrow> whisper_full_params.language w = ''auto'')
           \<and> (\<not> whisper_is_multilingual api ctx
                \<and> (whisper_params.language params \<noteq> ''en'' \<or> whisper_params.translate params)
                \<longrightarrow> \<not> whisper_full_params.translate w
                    \<and> (\<not> whisper_params.detect_language params
                         \<longrightarrow> whisper_full_params.language w = ''en''))"
  using assms
  by (simp add: ProcessAudio_calls make_wparams_def job_params_def apply_detect_language_def
      ignore_language_options_def Let_def c_str_def)

text \<open>
  The amended claim C10 on a model that is not multilingual, with language \<open>de\<close>: without
  \<open>detect_language\<close> the run has language \<open>en\<close>, with it language \<open>auto\<close>.
\<close>

theorem language_of_every_job_witness:
  "read_wav (example_api False 0 []) ''RIFF'' = Some [82, 73, 70, 70]
   \<and> \<not> whisper_is_multilingual (example_api False 0 []) []
   \<and> whisper_params.language german_params \<noteq> ''en''
   \<and> \<not> whisper_params.detect_language german_params
   \<and> whisper_params.detect_language german_detect_params
   \<and> (\<exists>w n np status.
         snd (snd (ProcessAudio (example_api False 0 []) initial_store [] german_params ''RIFF''))
           = [Call_full_parallel w [82, 73, 70, 70] n np status]
         \<and> \<not> whisper_full_params.translate w \<and> whisper_full_params.language w = ''en'')
   \<and> (\<exists>w n np status.
         snd (snd (ProcessAudio (example_api False 0 []) initial_store [] german_detect_params
                     ''RIFF''))
           = [Call_full_parallel w [82, 73, 70, 70] n np status]
         \<and> \<not> whisper_full_params.translate w \<and> whisper_full_params.language w = ''auto'')"
proof -
  have wav: "read_wav (example_api False 0 []) ''RIFF'' = Some [82, 73, 70, 70]"
    by (simp add: example_api_def)
  have hyps: "\<not> whisper_is_multilingual (example_api False 0 []) []
     \<and> whisper_params.language german_params \<noteq> ''en''
     \<and> \<not> whisper_params.detect_language german_params
     \<and> whisper_params.language german_detect_params \<noteq> ''en''
     \<and> whisper_params.detect_language german_detect_params"
    by (simp add: example_api_def german_params_def german_detect_params_def
        default_whisper_params_def)
  from language_of_every_job [OF wav, of initial_store "[]" german_params]
    language_of_every_job [OF wav, of initial_store "[]" german_detect_params] wav hyps
  show ?thesis by (simp; blast)
qed

end
